theory Spec2Isabelle
  imports Main "HOL-Library.Word"
begin

section \<open>The managed cluster service of cluster-api-provider-azure\<close>

text \<open>
  A shallow embedding of \<^verbatim>\<open>azure/services/managedclusters/managedclusters.go\<close>:
  the desired-resource construction of \<^verbatim>\<open>Service.Reconcile\<close>, its create/update
  decision over the provider client, and \<^verbatim>\<open>Service.Delete\<close>.

  Go pointers that may be nil are options. A Go \<^verbatim>\<open>error\<close> result is an
  \<open>error option\<close> (\<open>None\<close> is nil). A run-time panic is the outcome \<open>Panic\<close>.
  The provider client is an interface value: it is a record of operations over a
  provider state of any type, and every run returns the new provider state and the
  list of client calls it issued, in order. The context argument and the tracing span
  carry no data the service reads and are left out.
\<close>

subsection \<open>Errors and outcomes\<close>

datatype error =
    ErrorString string            \<comment> \<open>\<^verbatim>\<open>errors.New(msg)\<close>\<close>
  | WrapError string error        \<comment> \<open>\<^verbatim>\<open>fmt.Errorf(".. %w", err)\<close>: the text, the wrapped error\<close>
  | WithMessage error string      \<comment> \<open>\<^verbatim>\<open>errors.Wrap(err, msg)\<close>\<close>
  | ParseError string string      \<comment> \<open>\<^verbatim>\<open>net.ParseError{Type, Text}\<close>\<close>
  | NotFound string               \<comment> \<open>a provider error reporting that the resource is absent\<close>
  | ProviderFailure string        \<comment> \<open>any other error of the provider client\<close>

text \<open>The text of an error, \<^verbatim>\<open>err.Error()\<close>.\<close>

fun Error :: "error \<Rightarrow> string" where
  "Error (ErrorString s) = s"
| "Error (WrapError s e) = s"
| "Error (WithMessage e msg) = msg @ '': '' @ Error e"
| "Error (ParseError ty txt) = ''invalid '' @ ty @ '': '' @ txt"
| "Error (NotFound s) = s"
| "Error (ProviderFailure s) = s"

definition errors_New :: "string \<Rightarrow> error" where
  "errors_New msg = ErrorString msg"

text \<open>\<^verbatim>\<open>fmt.Errorf(prefix + "%w", err)\<close> with a non-nil \<^verbatim>\<open>err\<close>.\<close>

definition fmt_Errorf :: "string \<Rightarrow> error \<Rightarrow> error" where
  "fmt_Errorf prefix e = WrapError (prefix @ Error e) e"

text \<open>\<^verbatim>\<open>errors.Wrap\<close> of github.com/pkg/errors: nil stays nil.\<close>

definition errors_Wrap :: "error option \<Rightarrow> string \<Rightarrow> error option" where
  "errors_Wrap err msg = (case err of None \<Rightarrow> None | Some e \<Rightarrow> Some (WithMessage e msg))"

text \<open>
  Modelled from the spec: \<^verbatim>\<open>azure.ResourceNotFound\<close> is not among the sources. The
  spec requires of the provider client that an error is distinguishable as "not found"
  versus any other failure; a nil error is not "not found" (the fetch succeeded).
\<close>

definition ResourceNotFound :: "error option \<Rightarrow> bool" where
  "ResourceNotFound err = (case err of Some (NotFound _) \<Rightarrow> True | _ \<Rightarrow> False)"

datatype 'a outcome = Return 'a | Panic string

text \<open>The text of the panic on a nil pointer dereference.\<close>

definition nilDereference :: string where
  "nilDereference = ''runtime error: invalid memory address or nil pointer dereference''"

subsection \<open>The specification types\<close>

type_synonym int32 = "32 word"
type_synonym byte = "8 word"

record PoolSpec =
  PoolName :: string
  PoolSKU :: string
  PoolReplicas :: int32
  PoolOSDiskSizeGB :: int32

record Spec =
  Name :: string
  ResourceGroupName :: string
  NodeResourceGroupName :: string
  VnetSubnetID :: string
  Location :: string
  Tags :: "string \<rightharpoonup> string"
  Version :: string
  LoadBalancerSKU :: string
  NetworkPlugin :: string
  NetworkPolicy :: string
  SSHPublicKey :: string
  AgentPools :: "PoolSpec list"
  PodCIDR :: string
  ServiceCIDR :: string
  DNSServiceIP :: "string option"

text \<open>
  The entry points take \<^verbatim>\<open>spec interface{}\<close> and assert \<^verbatim>\<open>spec.(*Spec)\<close>: the
  argument is a \<^verbatim>\<open>*Spec\<close> (which may be a nil pointer) or a value of another type.
\<close>

datatype spec_arg = SpecPtr "Spec option" | OtherType

subsection \<open>The resource types of the containerservice SDK\<close>

datatype ResourceIdentityType =
  ResourceIdentityTypeSystemAssigned | ResourceIdentityTypeUserAssigned | ResourceIdentityTypeNone

datatype AgentPoolType = AgentPoolTypeVirtualMachineScaleSets | AgentPoolTypeAvailabilitySet

datatype AgentPoolMode = AgentPoolModeSystem | AgentPoolModeUser

record ManagedClusterIdentity =
  identity_Type :: ResourceIdentityType

record SSHPublicKeyEntry =
  KeyData :: "string option"

record SSHConfiguration =
  PublicKeys :: "SSHPublicKeyEntry list option"

record LinuxProfile =
  AdminUsername :: "string option"
  SSH :: "SSHConfiguration option"

record ManagedClusterServicePrincipalProfile =
  ClientID :: "string option"

record ManagedClusterAgentPoolProfile =
  profile_Name :: "string option"
  profile_VMSize :: "string option"
  profile_OsDiskSizeGB :: "int32 option"
  profile_Count :: "int32 option"
  profile_Type :: AgentPoolType
  profile_VnetSubnetID :: "string option"
  profile_Mode :: AgentPoolMode

record NetworkProfile =
  np_NetworkPlugin :: string
  np_LoadBalancerSku :: string
  np_NetworkPolicy :: string
  np_PodCidr :: "string option"
  np_ServiceCidr :: "string option"
  np_DNSServiceIP :: "string option"

record ManagedClusterProperties =
  ProvisioningState :: "string option"
  NodeResourceGroup :: "string option"
  DNSPrefix :: "string option"
  KubernetesVersion :: "string option"
  props_LinuxProfile :: "LinuxProfile option"
  props_ServicePrincipalProfile :: "ManagedClusterServicePrincipalProfile option"
  props_AgentPoolProfiles :: "ManagedClusterAgentPoolProfile list option"
  props_NetworkProfile :: "NetworkProfile option"

record ManagedCluster =
  mc_Identity :: "ManagedClusterIdentity option"
  mc_Location :: "string option"
  mc_Tags :: "string \<rightharpoonup> string"
  mc_Properties :: "ManagedClusterProperties option"

text \<open>The zero value \<^verbatim>\<open>containerservice.ManagedClusterProperties{}\<close>.\<close>

definition zeroProperties :: ManagedClusterProperties where
  "zeroProperties = \<lparr> ProvisioningState = None, NodeResourceGroup = None, DNSPrefix = None,
     KubernetesVersion = None, props_LinuxProfile = None, props_ServicePrincipalProfile = None,
     props_AgentPoolProfiles = None, props_NetworkProfile = None \<rparr>"

definition zeroManagedCluster :: ManagedCluster where
  "zeroManagedCluster = \<lparr> mc_Identity = None, mc_Location = None, mc_Tags = Map.empty,
     mc_Properties = None \<rparr>"

subsection \<open>Package net\<close>

text \<open>
  \<^verbatim>\<open>net.ParseCIDR\<close> and \<^verbatim>\<open>IP.String\<close> belong to the Go standard library, not to
  this repository: the service is modelled over any implementation of the two, given as
  a record. \<^verbatim>\<open>ParseCIDR\<close> returns the address written in the text, the network (the
  address masked to the prefix, and the mask), and an error.
\<close>

type_synonym IP = "byte list"

record IPNet =
  IPNet_IP :: IP
  IPNet_Mask :: "byte list"

record netpkg =
  ParseCIDR :: "string \<Rightarrow> IP \<times> IPNet option \<times> error option"
  IP_String :: "IP \<Rightarrow> string"

subsection \<open>Package net on IPv4 text\<close>

text \<open>
  The IPv4 part of \<^verbatim>\<open>net.ParseCIDR\<close> and \<^verbatim>\<open>IP.String\<close>, for running the service on
  concrete specifications: dotted-decimal addresses with a decimal prefix length. An
  address in IPv6 text form is outside this instance and is reported as a parse error
  here; it is used below at IPv4 inputs only.
\<close>

definition isDigit :: "char \<Rightarrow> bool" where
  "isDigit c = (c \<in> set ''0123456789'')"

definition digitVal :: "char \<Rightarrow> nat" where
  "digitVal c =
     (if c = CHR ''1'' then 1 else if c = CHR ''2'' then 2 else if c = CHR ''3'' then 3
      else if c = CHR ''4'' then 4 else if c = CHR ''5'' then 5 else if c = CHR ''6'' then 6
      else if c = CHR ''7'' then 7 else if c = CHR ''8'' then 8 else if c = CHR ''9'' then 9
      else 0)"

definition digitChar :: "nat \<Rightarrow> char" where
  "digitChar d = ''0123456789'' ! d"

text \<open>
  \<^verbatim>\<open>parseIPv4Fields\<close>: the loop over the characters, with the previous character
  (\<open>None\<close> at index 0), the value and the digit count of the current octet, and the
  octets stored so far. An octet with a leading zero, a value above 255, an empty
  octet and a fifth octet are rejected.
\<close>

fun parseIPv4Loop ::
  "char option \<Rightarrow> nat \<Rightarrow> nat \<Rightarrow> nat list \<Rightarrow> string \<Rightarrow> (nat list \<times> nat) option" where
  "parseIPv4Loop prev val digLen octets [] = Some (octets, val)"
| "parseIPv4Loop prev val digLen octets (c # cs) =
     (if isDigit c then
        (if digLen = 1 \<and> val = 0 then None
         else (let val1 = val * 10 + digitVal c
               in if val1 > 255 then None
                  else parseIPv4Loop (Some c) val1 (digLen + 1) octets cs))
      else if c = CHR ''.'' then
        (if prev = None \<or> cs = [] \<or> prev = Some (CHR ''.'') then None
         else if length octets = 3 then None
         else parseIPv4Loop (Some c) 0 0 (octets @ [val]) cs)
      else None)"

definition parseIPv4 :: "string \<Rightarrow> nat list option" where
  "parseIPv4 s =
     (case parseIPv4Loop None 0 0 [] s of
        None \<Rightarrow> None
      | Some (octets, val) \<Rightarrow> if length octets < 3 then None else Some (octets @ [val]))"

text \<open>\<^verbatim>\<open>dtoi\<close>: the decimal prefix of a string, its length, and whether it is a number.\<close>

definition big :: nat where
  "big = 16777215"

fun dtoiLoop :: "nat \<Rightarrow> nat \<Rightarrow> string \<Rightarrow> nat \<times> nat \<times> bool" where
  "dtoiLoop n i [] = (n, i, True)"
| "dtoiLoop n i (c # cs) =
     (if isDigit c then
        (let n1 = n * 10 + digitVal c
         in if n1 \<ge> big then (big, i, False) else dtoiLoop n1 (i + 1) cs)
      else (n, i, True))"

definition dtoi :: "string \<Rightarrow> nat \<times> nat \<times> bool" where
  "dtoi s =
     (case dtoiLoop 0 0 s of
        (n, i, ok) \<Rightarrow> if \<not> ok then (n, i, False) else if i = 0 then (0, 0, False) else (n, i, True))"

text \<open>\<^verbatim>\<open>CIDRMask(ones, 8 * l)\<close>: \<open>l\<close> bytes whose leading \<open>ones\<close> bits are set.\<close>

fun CIDRMask :: "nat \<Rightarrow> nat \<Rightarrow> byte list" where
  "CIDRMask n 0 = []"
| "CIDRMask n (Suc l) =
     (if n \<ge> 8 then 255 # CIDRMask (n - 8) l
      else not (drop_bit n 255) # CIDRMask 0 l)"

definition v4InV6Prefix :: "byte list" where
  "v4InV6Prefix = [0, 0, 0, 0, 0, 0, 0, 0, 0, 0, 255, 255]"

text \<open>\<^verbatim>\<open>IP.To4\<close>: the four bytes of an IPv4 address, or nil.\<close>

definition To4 :: "IP \<Rightarrow> IP" where
  "To4 ip =
     (if length ip = 4 then ip
      else if length ip = 16 \<and> take 12 ip = v4InV6Prefix then drop 12 ip
      else [])"

text \<open>\<^verbatim>\<open>IP.Mask\<close> with a four-byte mask: nil unless the address is an IPv4 address.\<close>

definition IP_Mask :: "IP \<Rightarrow> byte list \<Rightarrow> IP" where
  "IP_Mask ip msk =
     (let ip4 = (if length msk = 4 \<and> length ip = 16 \<and> take 12 ip = v4InV6Prefix
                 then drop 12 ip else ip)
      in if length ip4 \<noteq> length msk then []
         else map (\<lambda>(b, m). and b m) (zip ip4 msk))"

definition cidrError :: "string \<Rightarrow> error" where
  "cidrError s = ParseError ''CIDR address'' s"

definition net_ParseCIDR :: "string \<Rightarrow> IP \<times> IPNet option \<times> error option" where
  "net_ParseCIDR s =
     (if CHR ''/'' \<notin> set s then ([], None, Some (cidrError s))
      else
        (let addr = takeWhile (\<lambda>c. c \<noteq> CHR ''/'') s;
             msk = tl (dropWhile (\<lambda>c. c \<noteq> CHR ''/'') s)
         in case parseIPv4 addr of
              None \<Rightarrow> ([], None, Some (cidrError s))
            | Some octets \<Rightarrow>
                (case dtoi msk of
                   (n, i, ok) \<Rightarrow>
                     if \<not> ok \<or> i \<noteq> length msk \<or> n > 32 then ([], None, Some (cidrError s))
                     else
                       (let m = CIDRMask n 4;
                            ip = v4InV6Prefix @ map of_nat octets
                        in (ip, Some \<lparr> IPNet_IP = IP_Mask ip m, IPNet_Mask = m \<rparr>, None)))))"

text \<open>\<^verbatim>\<open>uitoa\<close>: an unsigned number in decimal.\<close>

fun uitoa :: "nat \<Rightarrow> string" where
  "uitoa n = (if n < 10 then [digitChar n] else uitoa (n div 10) @ [digitChar (n mod 10)])"

declare uitoa.simps [simp del]

text \<open>
  \<^verbatim>\<open>IP.String\<close> of an IPv4 address, in either length: the four octets in decimal,
  separated by dots. Other addresses are outside this instance.
\<close>

definition net_IP_String :: "IP \<Rightarrow> string" where
  "net_IP_String ip =
     (case To4 ip of
        [a, b, c, d] \<Rightarrow>
          uitoa (unat a) @ ''.'' @ uitoa (unat b) @ ''.'' @ uitoa (unat c) @ ''.'' @ uitoa (unat d)
      | _ \<Rightarrow> ''?'')"

definition goNet :: netpkg where
  "goNet = \<lparr> ParseCIDR = net_ParseCIDR, IP_String = net_IP_String \<rparr>"

subsection \<open>The provider client\<close>

text \<open>
  \<^verbatim>\<open>s.Client\<close>: the three operations the service calls, each a step on the provider
  state. \<^verbatim>\<open>Get\<close> returns a resource and an error, as the Go method does.
\<close>

record 's Client =
  client_Get :: "string \<Rightarrow> string \<Rightarrow> 's \<Rightarrow> (ManagedCluster \<times> error option) \<times> 's"
  client_CreateOrUpdate :: "string \<Rightarrow> string \<Rightarrow> ManagedCluster \<Rightarrow> 's \<Rightarrow> error option \<times> 's"
  client_Delete :: "string \<Rightarrow> string \<Rightarrow> 's \<Rightarrow> error option \<times> 's"

datatype call =
    GetCall string string
  | CreateOrUpdateCall string string ManagedCluster
  | DeleteCall string string

fun isMutating :: "call \<Rightarrow> bool" where
  "isMutating (GetCall g n) = False"
| "isMutating (CreateOrUpdateCall g n mc) = True"
| "isMutating (DeleteCall g n) = True"

fun isCreateOrUpdate :: "call \<Rightarrow> bool" where
  "isCreateOrUpdate (CreateOrUpdateCall g n mc) = True"
| "isCreateOrUpdate c = False"

subsection \<open>Package-level values\<close>

definition defaultUser :: string where
  "defaultUser = ''azureuser''"

definition managedIdentity :: string where
  "managedIdentity = ''msi''"

text \<open>
  Modelled from the spec: the provisioning state constants \<^verbatim>\<open>infrav1alpha4.Canceled\<close>,
  \<^verbatim>\<open>infrav1alpha4.Failed\<close> and \<^verbatim>\<open>infrav1alpha4.Succeeded\<close> are declared in the
  package \<^verbatim>\<open>api/v1alpha4\<close>, which is not among the sources; the spec names the states
  Canceled, Failed and Succeeded.
\<close>

definition Canceled :: string where
  "Canceled = ''Canceled''"

definition Failed :: string where
  "Failed = ''Failed''"

definition Succeeded :: string where
  "Succeeded = ''Succeeded''"

subsection \<open>Reconcile: the desired resource (lines 126 to 193)\<close>

text \<open>The network profile of the literal at lines 150 to 154.\<close>

definition networkProfileLiteral :: "Spec \<Rightarrow> NetworkProfile" where
  "networkProfileLiteral spec =
     \<lparr> np_NetworkPlugin = NetworkPlugin spec,
       np_LoadBalancerSku = LoadBalancerSKU spec,
       np_NetworkPolicy = NetworkPolicy spec,
       np_PodCidr = None, np_ServiceCidr = None, np_DNSServiceIP = None \<rparr>"

text \<open>Lines 158 to 160.\<close>

definition setPodCIDR :: "Spec \<Rightarrow> NetworkProfile \<Rightarrow> NetworkProfile" where
  "setPodCIDR spec np =
     (if PodCIDR spec \<noteq> '''' then np\<lparr>np_PodCidr := Some (PodCIDR spec)\<rparr> else np)"

text \<open>The text of the panic on indexing a slice of length \<open>n\<close> at \<open>i\<close>.\<close>

definition indexOutOfRange :: "nat \<Rightarrow> nat \<Rightarrow> string" where
  "indexOutOfRange i n =
     ''runtime error: index out of range ['' @ uitoa i @ ''] with length '' @ uitoa n"

text \<open>
  Lines 162 to 179. \<^verbatim>\<open>ip[15] = byte(10)\<close> panics when the slice has fewer than 16
  bytes. The early return on a parse error leaves \<^verbatim>\<open>Reconcile\<close> with that error.
\<close>

definition setServiceCIDR ::
  "netpkg \<Rightarrow> Spec \<Rightarrow> NetworkProfile \<Rightarrow> (error + NetworkProfile) outcome" where
  "setServiceCIDR lib spec np =
     (if ServiceCIDR spec \<noteq> '''' then
        (case DNSServiceIP spec of
           None \<Rightarrow>
             (let np1 = np\<lparr>np_ServiceCidr := Some (ServiceCIDR spec)\<rparr> in
              case ParseCIDR lib (ServiceCIDR spec) of
                (ip, ipnet, Some err) \<Rightarrow>
                  Return (Inl (fmt_Errorf ''failed to parse service cidr: '' err))
              | (ip, ipnet, None) \<Rightarrow>
                  if length ip \<le> 15 then Panic (indexOutOfRange 15 (length ip))
                  else (let ip1 = ip[15 := 10];
                            dnsIP = IP_String lib ip1
                        in Return (Inr (np1\<lparr>np_DNSServiceIP := Some dnsIP\<rparr>))))
         | Some given \<Rightarrow> Return (Inr (np\<lparr>np_DNSServiceIP := Some given\<rparr>)))
      else Return (Inr np))"

text \<open>Lines 181 to 193: one profile per pool, appended in order.\<close>

definition agentPoolProfile :: "Spec \<Rightarrow> PoolSpec \<Rightarrow> ManagedClusterAgentPoolProfile" where
  "agentPoolProfile spec pool =
     \<lparr> profile_Name = Some (PoolName pool),
       profile_VMSize = Some (PoolSKU pool),
       profile_OsDiskSizeGB = Some (PoolOSDiskSizeGB pool),
       profile_Count = Some (PoolReplicas pool),
       profile_Type = AgentPoolTypeVirtualMachineScaleSets,
       profile_VnetSubnetID = Some (VnetSubnetID spec),
       profile_Mode = AgentPoolModeSystem \<rparr>"

fun appendProfiles ::
  "Spec \<Rightarrow> ManagedClusterAgentPoolProfile list \<Rightarrow> PoolSpec list \<Rightarrow> ManagedClusterAgentPoolProfile list" where
  "appendProfiles spec acc [] = acc"
| "appendProfiles spec acc (pool # pools) =
     appendProfiles spec (acc @ [agentPoolProfile spec pool]) pools"

text \<open>The literal at lines 126 to 156, with the network profile and the pools filled in.\<close>

definition managedClusterLiteral ::
  "Spec \<Rightarrow> NetworkProfile \<Rightarrow> ManagedClusterAgentPoolProfile list \<Rightarrow> ManagedCluster" where
  "managedClusterLiteral spec np pools =
     \<lparr> mc_Identity = Some \<lparr> identity_Type = ResourceIdentityTypeSystemAssigned \<rparr>,
       mc_Location = Some (Location spec),
       mc_Tags = Tags spec,
       mc_Properties = Some
         \<lparr> ProvisioningState = None,
           NodeResourceGroup = Some (NodeResourceGroupName spec),
           DNSPrefix = Some (Name spec),
           KubernetesVersion = Some (Version spec),
           props_LinuxProfile = Some
             \<lparr> AdminUsername = Some defaultUser,
               SSH = Some \<lparr> PublicKeys = Some [\<lparr> KeyData = Some (SSHPublicKey spec) \<rparr>] \<rparr> \<rparr>,
           props_ServicePrincipalProfile = Some \<lparr> ClientID = Some managedIdentity \<rparr>,
           props_AgentPoolProfiles = Some pools,
           props_NetworkProfile = Some np \<rparr> \<rparr>"

definition buildManagedCluster :: "netpkg \<Rightarrow> Spec \<Rightarrow> (error + ManagedCluster) outcome" where
  "buildManagedCluster lib spec =
     (case setServiceCIDR lib spec (setPodCIDR spec (networkProfileLiteral spec)) of
        Panic m \<Rightarrow> Panic m
      | Return (Inl e) \<Rightarrow> Return (Inl e)
      | Return (Inr np) \<Rightarrow>
          Return (Inr (managedClusterLiteral spec np (appendProfiles spec [] (AgentPools spec)))))"

subsection \<open>Reconcile: the decision (lines 195 to 238)\<close>

type_synonym 's run = "error option outcome \<times> 's \<times> call list"

text \<open>
  The two \<^verbatim>\<open>CreateOrUpdate\<close> calls (lines 202 to 205 and 230 to 233) differ in the
  text of the error only; after a call that succeeds \<^verbatim>\<open>Reconcile\<close> returns nil.
\<close>

definition callCreateOrUpdate ::
  "'s Client \<Rightarrow> Spec \<Rightarrow> ManagedCluster \<Rightarrow> string \<Rightarrow> 's \<Rightarrow> call list \<Rightarrow> 's run" where
  "callCreateOrUpdate c spec managedCluster prefix st calls =
     (case client_CreateOrUpdate c (ResourceGroupName spec) (Name spec) managedCluster st of
        (err, st1) \<Rightarrow>
          (let calls1 = calls @ [CreateOrUpdateCall (ResourceGroupName spec) (Name spec) managedCluster]
           in case err of
                Some e \<Rightarrow> (Return (Some (fmt_Errorf prefix e)), st1, calls1)
              | None \<Rightarrow> (Return None, st1, calls1)))"

text \<open>
  \<^verbatim>\<open>cmp.Diff\<close> returns the empty string exactly when the two values are equal; its
  report is only logged. Two pointers to structs are equal when the structs are.
\<close>

definition cmp_Diff_empty :: "ManagedClusterProperties \<Rightarrow> ManagedClusterProperties \<Rightarrow> bool" where
  "cmp_Diff_empty x y = (x = y)"

definition blockedMessage :: string where
  "blockedMessage = ''Unable to update existing managed cluster in non terminal state. Managed cluster must be in one of the following provisioning states: canceled, failed, or succeeded. Actual state: ''"

text \<open>Lines 207 to 235: the branch taken when the resource exists.\<close>

definition reconcileExisting ::
  "'s Client \<Rightarrow> Spec \<Rightarrow> ManagedCluster \<Rightarrow> ManagedCluster \<Rightarrow> 's \<Rightarrow> call list \<Rightarrow> 's run" where
  "reconcileExisting c spec managedCluster existingMC st calls =
     (case mc_Properties existingMC of
        None \<Rightarrow> (Panic nilDereference, st, calls)
      | Some existingProps \<Rightarrow>
          (case ProvisioningState existingProps of
             None \<Rightarrow> (Panic nilDereference, st, calls)
           | Some ps \<Rightarrow>
               if ps \<noteq> Canceled \<and> ps \<noteq> Failed \<and> ps \<noteq> Succeeded
               then (Return (Some (errors_New (blockedMessage @ ps))), st, calls)
               else
                 (case mc_Properties managedCluster of
                    None \<Rightarrow> (Panic nilDereference, st, calls)
                  | Some props \<Rightarrow>
                      (let propertiesNormalized =
                             zeroProperties\<lparr>KubernetesVersion := KubernetesVersion props\<rparr>;
                           existingMCPropertiesNormalized =
                             zeroProperties\<lparr>KubernetesVersion := KubernetesVersion existingProps\<rparr>
                       in if \<not> cmp_Diff_empty propertiesNormalized existingMCPropertiesNormalized
                          then callCreateOrUpdate c spec managedCluster
                                 ''failed to update managed cluster, '' st calls
                          else (Return None, st, calls)))))"

definition Reconcile :: "netpkg \<Rightarrow> 's Client \<Rightarrow> spec_arg \<Rightarrow> 's \<Rightarrow> 's run" where
  "Reconcile lib c arg st =
     (case arg of
        OtherType \<Rightarrow> (Return (Some (errors_New ''expected managed cluster specification'')), st, [])
      | SpecPtr None \<Rightarrow> (Panic nilDereference, st, [])
      | SpecPtr (Some spec) \<Rightarrow>
          (case buildManagedCluster lib spec of
             Panic m \<Rightarrow> (Panic m, st, [])
           | Return (Inl e) \<Rightarrow> (Return (Some e), st, [])
           | Return (Inr managedCluster) \<Rightarrow>
               (case client_Get c (ResourceGroupName spec) (Name spec) st of
                  ((existingMC, err), st1) \<Rightarrow>
                    (let calls = [GetCall (ResourceGroupName spec) (Name spec)] in
                     if err \<noteq> None \<and> \<not> ResourceNotFound err
                     then (Return (errors_Wrap err ''failed to get existing managed cluster''), st1, calls)
                     else if ResourceNotFound err
                     then callCreateOrUpdate c spec managedCluster
                            ''failed to create managed cluster, '' st1 calls
                     else reconcileExisting c spec managedCluster existingMC st1 calls))))"

subsection \<open>Delete (lines 241 to 262)\<close>

definition deleteMessage :: "Spec \<Rightarrow> string" where
  "deleteMessage spec =
     ''failed to delete managed cluster '' @ Name spec @ '' in resource group '' @ ResourceGroupName spec"

definition Delete :: "'s Client \<Rightarrow> spec_arg \<Rightarrow> 's \<Rightarrow> 's run" where
  "Delete c arg st =
     (case arg of
        OtherType \<Rightarrow> (Return (Some (errors_New ''expected managed cluster specification'')), st, [])
      | SpecPtr None \<Rightarrow> (Panic nilDereference, st, [])
      | SpecPtr (Some spec) \<Rightarrow>
          (case client_Delete c (ResourceGroupName spec) (Name spec) st of
             (err, st1) \<Rightarrow>
               (let calls = [DeleteCall (ResourceGroupName spec) (Name spec)] in
                if err \<noteq> None
                then (if ResourceNotFound err then (Return None, st1, calls)
                      else (Return (errors_Wrap err (deleteMessage spec)), st1, calls))
                else (Return None, st1, calls))))"

subsection \<open>Reading the desired resource\<close>

definition desiredProperties :: "netpkg \<Rightarrow> Spec \<Rightarrow> ManagedClusterProperties option" where
  "desiredProperties lib spec =
     (case buildManagedCluster lib spec of
        Return (Inr managedCluster) \<Rightarrow> mc_Properties managedCluster
      | _ \<Rightarrow> None)"

definition desiredNetworkProfile :: "netpkg \<Rightarrow> Spec \<Rightarrow> NetworkProfile option" where
  "desiredNetworkProfile lib spec =
     (case desiredProperties lib spec of Some props \<Rightarrow> props_NetworkProfile props | None \<Rightarrow> None)"

definition desiredLinuxProfile :: "netpkg \<Rightarrow> Spec \<Rightarrow> LinuxProfile option" where
  "desiredLinuxProfile lib spec =
     (case desiredProperties lib spec of Some props \<Rightarrow> props_LinuxProfile props | None \<Rightarrow> None)"

definition desiredPublicKeys :: "netpkg \<Rightarrow> Spec \<Rightarrow> SSHPublicKeyEntry list option" where
  "desiredPublicKeys lib spec =
     (case desiredLinuxProfile lib spec of
        Some profile \<Rightarrow> (case SSH profile of Some ssh \<Rightarrow> PublicKeys ssh | None \<Rightarrow> None)
      | None \<Rightarrow> None)"

text \<open>
  The service IP in the words of the specification: the base address of the network
  of the parsed block, with its final octet overwritten by 10.
\<close>

definition networkBaseDNSServiceIP :: "netpkg \<Rightarrow> string \<Rightarrow> string option" where
  "networkBaseDNSServiceIP lib cidr =
     (case ParseCIDR lib cidr of
        (ip, Some ipnet, None) \<Rightarrow>
          (let base = IPNet_IP ipnet
           in Some (IP_String lib (base[length base - 1 := 10])))
      | _ \<Rightarrow> None)"

definition isPanic :: "'a outcome \<Rightarrow> bool" where
  "isPanic r = (case r of Panic m \<Rightarrow> True | Return v \<Rightarrow> False)"

text \<open>Whether a fetched resource carries a properties block with a provisioning state.\<close>

definition hasProvisioningState :: "ManagedCluster \<Rightarrow> bool" where
  "hasProvisioningState mc =
     (case mc_Properties mc of None \<Rightarrow> False | Some props \<Rightarrow> ProvisioningState props \<noteq> None)"

subsection \<open>Concrete specifications and clients\<close>

definition exampleSpec :: Spec where
  "exampleSpec =
     \<lparr> Name = ''my-cluster'', ResourceGroupName = ''my-rg'', NodeResourceGroupName = ''MC_my-rg'',
       VnetSubnetID = ''subnet-1'', Location = ''westus2'', Tags = Map.empty, Version = ''1.21.2'',
       LoadBalancerSKU = ''Standard'', NetworkPlugin = ''azure'', NetworkPolicy = ''azure'',
       SSHPublicKey = ''ssh-rsa AAAA'',
       AgentPools = [\<lparr> PoolName = ''pool0'', PoolSKU = ''Standard_D2s_v3'', PoolReplicas = 3,
                        PoolOSDiskSizeGB = 128 \<rparr>],
       PodCIDR = ''10.244.0.0/16'', ServiceCIDR = ''10.0.0.0/16'', DNSServiceIP = None \<rparr>"

text \<open>A resource as the provider returns it: a provisioning state and a version.\<close>

definition existingCluster :: "string \<Rightarrow> string \<Rightarrow> ManagedCluster" where
  "existingCluster ps version =
     zeroManagedCluster\<lparr> mc_Properties :=
       Some (zeroProperties\<lparr> ProvisioningState := Some ps, KubernetesVersion := Some version \<rparr>) \<rparr>"

text \<open>
  A client with fixed answers. Its state counts the mutating calls it has received.
\<close>

definition stubClient ::
  "ManagedCluster \<times> error option \<Rightarrow> error option \<Rightarrow> error option \<Rightarrow> nat Client" where
  "stubClient getResult createResult deleteResult =
     \<lparr> client_Get = (\<lambda>g n st. (getResult, st)),
       client_CreateOrUpdate = (\<lambda>g n mc st. (createResult, Suc st)),
       client_Delete = (\<lambda>g n st. (deleteResult, Suc st)) \<rparr>"

text \<open>The resource \<^verbatim>\<open>Reconcile\<close> builds for \<open>exampleSpec\<close>.\<close>

definition exampleDesired :: ManagedCluster where
  "exampleDesired =
     managedClusterLiteral exampleSpec
       ((setPodCIDR exampleSpec (networkProfileLiteral exampleSpec))
          \<lparr> np_ServiceCidr := Some ''10.0.0.0/16'', np_DNSServiceIP := Some ''10.0.0.10'' \<rparr>)
       (appendProfiles exampleSpec [] (AgentPools exampleSpec))"

text \<open>Variants of \<open>exampleSpec\<close>.\<close>

definition hostBitsSpec :: Spec where
  "hostBitsSpec = exampleSpec\<lparr> ServiceCIDR := ''10.0.5.7/16'' \<rparr>"

definition givenDNSSpec :: Spec where
  "givenDNSSpec = exampleSpec\<lparr> DNSServiceIP := Some ''10.0.0.10'' \<rparr>"

definition malformedSpec :: Spec where
  "malformedSpec = exampleSpec\<lparr> ServiceCIDR := ''not-a-cidr'' \<rparr>"

definition malformedGivenSpec :: Spec where
  "malformedGivenSpec =
     exampleSpec\<lparr> ServiceCIDR := ''not-a-cidr'', DNSServiceIP := Some ''10.0.0.10'' \<rparr>"

definition noKeySpec :: Spec where
  "noKeySpec = exampleSpec\<lparr> SSHPublicKey := [] \<rparr>"

subsection \<open>A provider that stores what it is sent\<close>







section \<open>Properties\<close>

subsection \<open>Auxiliary facts\<close>

lemma build_properties:
  "buildManagedCluster lib spec = Return (Inr managedCluster) \<Longrightarrow>
   \<exists>props. mc_Properties managedCluster = Some props \<and>
           KubernetesVersion props = Some (Version spec) \<and>
           props_LinuxProfile props = Some \<lparr> AdminUsername = Some defaultUser,
               SSH = Some \<lparr> PublicKeys = Some [\<lparr> KeyData = Some (SSHPublicKey spec) \<rparr>] \<rparr> \<rparr>"
  by (auto simp: buildManagedCluster_def managedClusterLiteral_def
           split: outcome.splits sum.splits)

lemma Reconcile_built:
  assumes "buildManagedCluster lib spec = Return (Inr managedCluster)"
    and "client_Get c (ResourceGroupName spec) (Name spec) st = ((existingMC, err), st1)"
  shows "Reconcile lib c (SpecPtr (Some spec)) st =
     (if err \<noteq> None \<and> \<not> ResourceNotFound err
      then (Return (errors_Wrap err ''failed to get existing managed cluster''), st1,
            [GetCall (ResourceGroupName spec) (Name spec)])
      else if ResourceNotFound err
      then callCreateOrUpdate c spec managedCluster ''failed to create managed cluster, '' st1
             [GetCall (ResourceGroupName spec) (Name spec)]
      else reconcileExisting c spec managedCluster existingMC st1
             [GetCall (ResourceGroupName spec) (Name spec)])"
  using assms by (simp add: Reconcile_def)

lemma callCreateOrUpdate_calls:
  "snd (snd (callCreateOrUpdate c spec mc prefix st calls)) =
     calls @ [CreateOrUpdateCall (ResourceGroupName spec) (Name spec) mc]"
  by (simp add: callCreateOrUpdate_def Let_def split: prod.splits option.splits)

lemma reconcileExisting_calls:
  "snd (snd (reconcileExisting c spec mc existingMC st calls)) = calls \<or>
   snd (snd (reconcileExisting c spec mc existingMC st calls)) =
     calls @ [CreateOrUpdateCall (ResourceGroupName spec) (Name spec) mc]"
  by (simp add: reconcileExisting_def callCreateOrUpdate_calls Let_def
           split: option.splits)

lemma callCreateOrUpdate_result:
  "client_CreateOrUpdate c (ResourceGroupName spec) (Name spec) mc st = (r, st2) \<Longrightarrow>
   callCreateOrUpdate c spec mc prefix st calls =
     (Return (map_option (fmt_Errorf prefix) r), st2,
      calls @ [CreateOrUpdateCall (ResourceGroupName spec) (Name spec) mc])"
  by (simp add: callCreateOrUpdate_def Let_def split: option.splits)


lemma build_derived:
  assumes "ServiceCIDR spec \<noteq> []" and "DNSServiceIP spec = None"
    and "ParseCIDR lib (ServiceCIDR spec) = (ip, ipnet, None)" and "15 < length ip"
  shows "buildManagedCluster lib spec =
     Return (Inr (managedClusterLiteral spec
       ((setPodCIDR spec (networkProfileLiteral spec))
          \<lparr> np_ServiceCidr := Some (ServiceCIDR spec),
            np_DNSServiceIP := Some (IP_String lib (ip[15 := 10])) \<rparr>)
       (appendProfiles spec [] (AgentPools spec))))"
  using assms by (simp add: buildManagedCluster_def setServiceCIDR_def Let_def)

lemma build_given:
  assumes "ServiceCIDR spec \<noteq> []" and "DNSServiceIP spec = Some given"
  shows "buildManagedCluster lib spec =
     Return (Inr (managedClusterLiteral spec
       ((setPodCIDR spec (networkProfileLiteral spec))\<lparr> np_DNSServiceIP := Some given \<rparr>)
       (appendProfiles spec [] (AgentPools spec))))"
  using assms by (simp add: buildManagedCluster_def setServiceCIDR_def)

lemma parseIPv4_examples:
  "parseIPv4 ''10.0.0.0'' = Some [10, 0, 0, 0]"
  "parseIPv4 ''10.0.5.7'' = Some [10, 0, 5, 7]"
  "parseIPv4 ''not-a-cidr'' = None"
  by (simp_all add: parseIPv4_def isDigit_def digitVal_def)

lemma dtoi_example:
  "dtoi ''16'' = (16, 2, True)"
  by (simp add: dtoi_def isDigit_def digitVal_def big_def)

lemma CIDRMask_example:
  "CIDRMask 16 4 = [255, 255, 0, 0]"
  by code_simp

lemma IP_Mask_examples:
  "IP_Mask [0, 0, 0, 0, 0, 0, 0, 0, 0, 0, 255, 255, 10, 0, 0, 0] [255, 255, 0, 0] = [10, 0, 0, 0]"
  "IP_Mask [0, 0, 0, 0, 0, 0, 0, 0, 0, 0, 255, 255, 10, 0, 5, 7] [255, 255, 0, 0] = [10, 0, 0, 0]"
  by code_simp+

lemma parse_example:
  "net_ParseCIDR ''10.0.0.0/16'' =
     ([0, 0, 0, 0, 0, 0, 0, 0, 0, 0, 255, 255, 10, 0, 0, 0],
      Some \<lparr> IPNet_IP = [10, 0, 0, 0], IPNet_Mask = [255, 255, 0, 0] \<rparr>, None)"
  by (simp add: net_ParseCIDR_def parseIPv4_examples dtoi_example CIDRMask_example
        IP_Mask_examples v4InV6Prefix_def)

lemma parse_host_bits:
  "net_ParseCIDR ''10.0.5.7/16'' =
     ([0, 0, 0, 0, 0, 0, 0, 0, 0, 0, 255, 255, 10, 0, 5, 7],
      Some \<lparr> IPNet_IP = [10, 0, 0, 0], IPNet_Mask = [255, 255, 0, 0] \<rparr>, None)"
  by (simp add: net_ParseCIDR_def parseIPv4_examples dtoi_example CIDRMask_example
        IP_Mask_examples v4InV6Prefix_def)

lemma parse_malformed:
  "net_ParseCIDR ''not-a-cidr'' = ([], None, Some (ParseError ''CIDR address'' ''not-a-cidr''))"
  by (simp add: net_ParseCIDR_def cidrError_def)

lemma string_example:
  "net_IP_String [0, 0, 0, 0, 0, 0, 0, 0, 0, 0, 255, 255, 10, 0, 0, 10] = ''10.0.0.10''"
  "net_IP_String [0, 0, 0, 0, 0, 0, 0, 0, 0, 0, 255, 255, 10, 0, 5, 10] = ''10.0.5.10''"
  "net_IP_String [10, 0, 0, 10] = ''10.0.0.10''"
  by code_simp+

lemma desiredNetworkProfile_built:
  "buildManagedCluster lib spec = Return (Inr (managedClusterLiteral spec np pools)) \<Longrightarrow>
   desiredNetworkProfile lib spec = Some np"
  by (simp add: desiredNetworkProfile_def desiredProperties_def managedClusterLiteral_def)

lemma example_fields:
  "ServiceCIDR exampleSpec = ''10.0.0.0/16''" "DNSServiceIP exampleSpec = None"
  "ResourceGroupName exampleSpec = ''my-rg''" "Name exampleSpec = ''my-cluster''"
  "Version exampleSpec = ''1.21.2''"
  by (simp_all add: exampleSpec_def)

lemma example_dns:
  "IP_String goNet ([0, 0, 0, 0, 0, 0, 0, 0, 0, 0, 255, 255, 10, 0, 0, 0][15 := 10]) = ''10.0.0.10''"
  by (simp add: goNet_def string_example)

lemma example_build:
  "buildManagedCluster goNet exampleSpec = Return (Inr exampleDesired)"
proof -
  have p: "ParseCIDR goNet (ServiceCIDR exampleSpec) =
          ([0, 0, 0, 0, 0, 0, 0, 0, 0, 0, 255, 255, 10, 0, 0, 0],
           Some \<lparr> IPNet_IP = [10, 0, 0, 0], IPNet_Mask = [255, 255, 0, 0] \<rparr>, None)"
    by (simp add: goNet_def example_fields parse_example)
  have "ServiceCIDR exampleSpec \<noteq> []"
    by (simp add: example_fields)
  from build_derived [OF this example_fields(2) p] show ?thesis
    by (simp only: example_dns example_fields list.size exampleDesired_def)
qed


lemma stub_get:
  "client_Get (stubClient g cu d) rg n st = (g, st)"
  by (simp add: stubClient_def)

lemma stub_createOrUpdate:
  "client_CreateOrUpdate (stubClient g cu d) rg n mc st = (cu, Suc st)"
  by (simp add: stubClient_def)

lemma stub_delete:
  "client_Delete (stubClient g cu d) rg n st = (d, Suc st)"
  by (simp add: stubClient_def)

lemma existing_properties:
  "mc_Properties (existingCluster ps v) =
     Some (zeroProperties\<lparr> ProvisioningState := Some ps, KubernetesVersion := Some v \<rparr>)"
  by (simp add: existingCluster_def)

lemma variant_fields:
  "ServiceCIDR hostBitsSpec = ''10.0.5.7/16''" "DNSServiceIP hostBitsSpec = None"
  "ServiceCIDR givenDNSSpec = ''10.0.0.0/16''" "DNSServiceIP givenDNSSpec = Some ''10.0.0.10''"
  "ServiceCIDR malformedSpec = ''not-a-cidr''" "DNSServiceIP malformedSpec = None"
  "ServiceCIDR malformedGivenSpec = ''not-a-cidr''"
  "DNSServiceIP malformedGivenSpec = Some ''10.0.0.10''"
  "ServiceCIDR noKeySpec = ''10.0.0.0/16''" "DNSServiceIP noKeySpec = None"
  "SSHPublicKey noKeySpec = []"
  by (simp_all add: hostBitsSpec_def givenDNSSpec_def malformedSpec_def malformedGivenSpec_def
        noKeySpec_def exampleSpec_def)

lemma goNet_parse:
  "ParseCIDR goNet ''10.0.0.0/16'' =
     ([0, 0, 0, 0, 0, 0, 0, 0, 0, 0, 255, 255, 10, 0, 0, 0],
      Some \<lparr> IPNet_IP = [10, 0, 0, 0], IPNet_Mask = [255, 255, 0, 0] \<rparr>, None)"
  "ParseCIDR goNet ''10.0.5.7/16'' =
     ([0, 0, 0, 0, 0, 0, 0, 0, 0, 0, 255, 255, 10, 0, 5, 7],
      Some \<lparr> IPNet_IP = [10, 0, 0, 0], IPNet_Mask = [255, 255, 0, 0] \<rparr>, None)"
  "ParseCIDR goNet ''not-a-cidr'' = ([], None, Some (ParseError ''CIDR address'' ''not-a-cidr''))"
  by (simp_all add: goNet_def parse_example parse_host_bits parse_malformed)

lemma goNet_string:
  "IP_String goNet [0, 0, 0, 0, 0, 0, 0, 0, 0, 0, 255, 255, 10, 0, 0, 10] = ''10.0.0.10''"
  "IP_String goNet [0, 0, 0, 0, 0, 0, 0, 0, 0, 0, 255, 255, 10, 0, 5, 10] = ''10.0.5.10''"
  "IP_String goNet [10, 0, 0, 10] = ''10.0.0.10''"
  by (simp_all add: goNet_def string_example)

lemma derived_dns:
  assumes "ServiceCIDR spec \<noteq> []" and "DNSServiceIP spec = None"
    and "ParseCIDR lib (ServiceCIDR spec) = (ip, ipnet, None)" and "15 < length ip"
  shows "map_option np_DNSServiceIP (desiredNetworkProfile lib spec) =
           Some (Some (IP_String lib (ip[15 := 10])))"
    and "map_option np_ServiceCidr (desiredNetworkProfile lib spec) = Some (Some (ServiceCIDR spec))"
  by (simp_all add: desiredNetworkProfile_built [OF build_derived [OF assms]])

lemma given_dns:
  assumes "ServiceCIDR spec \<noteq> []" and "DNSServiceIP spec = Some given"
  shows "map_option np_DNSServiceIP (desiredNetworkProfile lib spec) = Some (Some given)"
    and "map_option np_ServiceCidr (desiredNetworkProfile lib spec) = Some None"
  by (simp_all add: desiredNetworkProfile_built [OF build_given [OF assms]]
        setPodCIDR_def networkProfileLiteral_def)

lemma built_keys:
  assumes "buildManagedCluster lib spec = Return (Inr managedCluster)"
  shows "map_option AdminUsername (desiredLinuxProfile lib spec) = Some (Some defaultUser)"
    and "desiredPublicKeys lib spec = Some [\<lparr> KeyData = Some (SSHPublicKey spec) \<rparr>]"
  using build_properties [OF assms] assms
  by (auto simp: desiredPublicKeys_def desiredLinuxProfile_def desiredProperties_def)

lemma noKey_build:
  "\<exists>managedCluster. buildManagedCluster goNet noKeySpec = Return (Inr managedCluster)"
proof -
  have "ServiceCIDR noKeySpec \<noteq> []"
    by (simp add: variant_fields)
  from build_derived [OF this variant_fields(10), of goNet] show ?thesis
    by (simp add: variant_fields goNet_parse)
qed

subsection \<open>The desired resource\<close>

text \<open>
  Claim C1, as amended. For a specification with a non-empty service CIDR and no DNS
  service IP, the DNS service IP of the built resource is the text of the address that
  \<^verbatim>\<open>net.ParseCIDR\<close> returns first, the address as it is written in the CIDR, with its
  byte 15 (the final octet of an IPv4 address) overwritten by 10. It is not taken from
  the base address of the network: host bits written in the CIDR are kept. With package
  net on IPv4 text, \<^verbatim>\<open>10.0.0.0/16\<close> gives \<^verbatim>\<open>10.0.0.10\<close>, and \<^verbatim>\<open>10.0.5.7/16\<close> gives
  \<^verbatim>\<open>10.0.5.10\<close>, where the network base \<^verbatim>\<open>10.0.0.0\<close> would give \<^verbatim>\<open>10.0.0.10\<close>.
\<close>

theorem C1_dns_from_address:
  "(\<forall>ip ipnet.
      ServiceCIDR spec \<noteq> [] \<and> DNSServiceIP spec = None \<and>
      ParseCIDR lib (ServiceCIDR spec) = (ip, ipnet, None) \<and> 15 < length ip \<longrightarrow>
      map_option np_DNSServiceIP (desiredNetworkProfile lib spec) =
        Some (Some (IP_String lib (ip[15 := 10]))))
   \<and> (ServiceCIDR spec = ''10.0.0.0/16'' \<and> DNSServiceIP spec = None \<longrightarrow>
        map_option np_DNSServiceIP (desiredNetworkProfile goNet spec) = Some (Some ''10.0.0.10''))
   \<and> (ServiceCIDR spec = ''10.0.5.7/16'' \<and> DNSServiceIP spec = None \<longrightarrow>
        map_option np_DNSServiceIP (desiredNetworkProfile goNet spec) = Some (Some ''10.0.5.10''))"
proof (intro conjI allI impI)
  fix ip ipnet
  assume "ServiceCIDR spec \<noteq> [] \<and> DNSServiceIP spec = None \<and>
      ParseCIDR lib (ServiceCIDR spec) = (ip, ipnet, None) \<and> 15 < length ip"
  then show "map_option np_DNSServiceIP (desiredNetworkProfile lib spec) =
        Some (Some (IP_String lib (ip[15 := 10])))"
    by (simp add: derived_dns)
next
  assume h: "ServiceCIDR spec = ''10.0.0.0/16'' \<and> DNSServiceIP spec = None"
  then have "ServiceCIDR spec \<noteq> []" and "DNSServiceIP spec = None"
    and "ParseCIDR goNet (ServiceCIDR spec) =
      ([0, 0, 0, 0, 0, 0, 0, 0, 0, 0, 255, 255, 10, 0, 0, 0],
       Some \<lparr> IPNet_IP = [10, 0, 0, 0], IPNet_Mask = [255, 255, 0, 0] \<rparr>, None)"
    by (simp_all add: goNet_parse)
  from derived_dns(1) [OF this]
  show "map_option np_DNSServiceIP (desiredNetworkProfile goNet spec) = Some (Some ''10.0.0.10'')"
    by (simp add: goNet_string)
next
  assume h: "ServiceCIDR spec = ''10.0.5.7/16'' \<and> DNSServiceIP spec = None"
  then have "ServiceCIDR spec \<noteq> []" and "DNSServiceIP spec = None"
    and "ParseCIDR goNet (ServiceCIDR spec) =
      ([0, 0, 0, 0, 0, 0, 0, 0, 0, 0, 255, 255, 10, 0, 5, 7],
       Some \<lparr> IPNet_IP = [10, 0, 0, 0], IPNet_Mask = [255, 255, 0, 0] \<rparr>, None)"
    by (simp_all add: goNet_parse)
  from derived_dns(1) [OF this]
  show "map_option np_DNSServiceIP (desiredNetworkProfile goNet spec) = Some (Some ''10.0.5.10'')"
    by (simp add: goNet_string)
qed

theorem C1_dns_from_address_witness:
  "map_option np_DNSServiceIP (desiredNetworkProfile goNet exampleSpec) = Some (Some ''10.0.0.10'')
   \<and> map_option np_DNSServiceIP (desiredNetworkProfile goNet hostBitsSpec) = Some (Some ''10.0.5.10'')
   \<and> map_option np_DNSServiceIP (desiredNetworkProfile goNet exampleSpec) =
       Some (Some (IP_String goNet
         ([0, 0, 0, 0, 0, 0, 0, 0, 0, 0, 255, 255, 10, 0, 0, 0][15 := 10])))"
proof -
  note t = C1_dns_from_address [of exampleSpec goNet]
  note u = C1_dns_from_address [of hostBitsSpec goNet]
  have a: "map_option np_DNSServiceIP (desiredNetworkProfile goNet exampleSpec) = Some (Some ''10.0.0.10'')"
    by (rule t [THEN conjunct2, THEN conjunct1, rule_format]) (simp add: example_fields)
  have b: "map_option np_DNSServiceIP (desiredNetworkProfile goNet hostBitsSpec) = Some (Some ''10.0.5.10'')"
    by (rule u [THEN conjunct2, THEN conjunct2, rule_format]) (simp add: variant_fields)
  have c: "map_option np_DNSServiceIP (desiredNetworkProfile goNet exampleSpec) =
       Some (Some (IP_String goNet
         ([0, 0, 0, 0, 0, 0, 0, 0, 0, 0, 255, 255, 10, 0, 0, 0][15 := 10])))"
    by (rule t [THEN conjunct1, rule_format]) (simp add: example_fields goNet_parse)
  from a b c show ?thesis by (simp only: simp_thms)
qed

theorem C1_network_base_counterexample:
  "map_option np_DNSServiceIP (desiredNetworkProfile goNet hostBitsSpec) = Some (Some ''10.0.5.10'')
   \<and> networkBaseDNSServiceIP goNet (ServiceCIDR hostBitsSpec) = Some ''10.0.0.10''
   \<and> map_option np_DNSServiceIP (desiredNetworkProfile goNet hostBitsSpec) \<noteq>
       Some (networkBaseDNSServiceIP goNet (ServiceCIDR hostBitsSpec))"
proof -
  have n: "ServiceCIDR hostBitsSpec \<noteq> []"
    by (simp add: variant_fields)
  have p: "ParseCIDR goNet (ServiceCIDR hostBitsSpec) =
      ([0, 0, 0, 0, 0, 0, 0, 0, 0, 0, 255, 255, 10, 0, 5, 7],
       Some \<lparr> IPNet_IP = [10, 0, 0, 0], IPNet_Mask = [255, 255, 0, 0] \<rparr>, None)"
    by (simp add: variant_fields goNet_parse)
  have a: "map_option np_DNSServiceIP (desiredNetworkProfile goNet hostBitsSpec) =
      Some (Some ''10.0.5.10'')"
    using derived_dns(1) [OF n variant_fields(2) p] by (simp add: goNet_string)
  have b: "networkBaseDNSServiceIP goNet (ServiceCIDR hostBitsSpec) = Some ''10.0.0.10''"
    by (simp add: networkBaseDNSServiceIP_def p goNet_string)
  show ?thesis unfolding a b by simp
qed

text \<open>
  Claim C2. The claim asks for both fields to be set when the DNS service IP is given.
  The code sets the DNS service IP verbatim, and leaves the service CIDR of the built
  resource unset: the assignment at line 164 stands inside the branch for an absent DNS
  service IP only. The theorem states what the code does.
\<close>

theorem C2_service_cidr_not_set:
  "ServiceCIDR spec \<noteq> [] \<and> DNSServiceIP spec = Some given \<longrightarrow>
     map_option np_DNSServiceIP (desiredNetworkProfile lib spec) = Some (Some given) \<and>
     map_option np_ServiceCidr (desiredNetworkProfile lib spec) = Some None"
  by (simp add: given_dns)

theorem C2_service_cidr_not_set_witness:
  "map_option np_DNSServiceIP (desiredNetworkProfile goNet givenDNSSpec) = Some (Some ''10.0.0.10'')
   \<and> map_option np_ServiceCidr (desiredNetworkProfile goNet givenDNSSpec) = Some None
   \<and> ServiceCIDR givenDNSSpec = ''10.0.0.0/16''"
  using C2_service_cidr_not_set [of givenDNSSpec "''10.0.0.10''" goNet]
  by (simp add: variant_fields)

text \<open>
  Claim C9, as amended. In every built resource the administrator name of the Linux
  profile is the fixed \<^verbatim>\<open>azureuser\<close>, and the list of SSH public keys holds exactly one
  entry, whose key data is the SSH public key of the specification, also when that key
  is the empty string.
\<close>

theorem C9_linux_profile:
  "buildManagedCluster lib spec = Return (Inr managedCluster) \<longrightarrow>
     map_option AdminUsername (desiredLinuxProfile lib spec) = Some (Some defaultUser) \<and>
     defaultUser = ''azureuser'' \<and>
     desiredPublicKeys lib spec = Some [\<lparr> KeyData = Some (SSHPublicKey spec) \<rparr>]"
  by (simp add: built_keys defaultUser_def)

theorem C9_linux_profile_witness:
  "map_option AdminUsername (desiredLinuxProfile goNet exampleSpec) = Some (Some defaultUser)
   \<and> defaultUser = ''azureuser''
   \<and> desiredPublicKeys goNet exampleSpec = Some [\<lparr> KeyData = Some (SSHPublicKey exampleSpec) \<rparr>]"
  by (rule C9_linux_profile [rule_format, OF example_build])

theorem C9_empty_key_counterexample:
  "SSHPublicKey noKeySpec = []
   \<and> desiredPublicKeys goNet noKeySpec = Some [\<lparr> KeyData = Some [] \<rparr>]
   \<and> desiredPublicKeys goNet noKeySpec \<noteq> Some []"
proof -
  from noKey_build obtain managedCluster
    where b: "buildManagedCluster goNet noKeySpec = Return (Inr managedCluster)" ..
  show ?thesis
    by (simp add: built_keys(2) [OF b] variant_fields)
qed

text \<open>
  Claim C3, as amended. For a specification with a non-empty service CIDR that does not
  parse and no DNS service IP, \<^verbatim>\<open>Reconcile\<close> returns the parse error wrapped with the text
  \<^verbatim>\<open>failed to parse service cidr\<close>, leaves the provider state unchanged and issues no
  provider call. When a DNS service IP is given, the service CIDR is never parsed, and
  the run goes on to the provider calls.
\<close>

theorem C3_parse_error_no_call:
  "ServiceCIDR spec \<noteq> [] \<and> DNSServiceIP spec = None \<and>
   ParseCIDR lib (ServiceCIDR spec) = (ip, ipnet, Some err) \<longrightarrow>
     Reconcile lib c (SpecPtr (Some spec)) st =
       (Return (Some (WrapError (''failed to parse service cidr: '' @ Error err) err)), st, [])"
  by (simp add: Reconcile_def buildManagedCluster_def setServiceCIDR_def fmt_Errorf_def)

theorem C3_parse_error_no_call_witness:
  "Reconcile goNet (stubClient (zeroManagedCluster, Some (NotFound ''404'')) None None)
     (SpecPtr (Some malformedSpec)) 0 =
     (Return (Some (WrapError
        (''failed to parse service cidr: '' @ Error (ParseError ''CIDR address'' ''not-a-cidr''))
        (ParseError ''CIDR address'' ''not-a-cidr''))), 0, [])"
  by (rule C3_parse_error_no_call [rule_format]) (simp add: variant_fields goNet_parse)

theorem C3_given_dns_counterexample:
  "ParseCIDR goNet (ServiceCIDR malformedGivenSpec) =
     ([], None, Some (ParseError ''CIDR address'' ''not-a-cidr''))
   \<and> fst (Reconcile goNet (stubClient (zeroManagedCluster, Some (NotFound ''404'')) None None)
       (SpecPtr (Some malformedGivenSpec)) 0) = Return None
   \<and> map isCreateOrUpdate (snd (snd (Reconcile goNet
       (stubClient (zeroManagedCluster, Some (NotFound ''404'')) None None)
       (SpecPtr (Some malformedGivenSpec)) 0))) = [False, True]"
proof -
  have n: "ServiceCIDR malformedGivenSpec \<noteq> []"
    by (simp add: variant_fields)
  note b = build_given [OF n variant_fields(8), of goNet]
  show ?thesis
    by (simp add: Reconcile_built [OF b stub_get] ResourceNotFound_def
          callCreateOrUpdate_result [OF stub_createOrUpdate] variant_fields goNet_parse)
qed

subsection \<open>The state guard\<close>

text \<open>
  Claim C4. When the fetch succeeds and the provisioning state of the existing resource
  is none of Succeeded, Failed and Canceled, \<^verbatim>\<open>Reconcile\<close> returns an error whose text
  ends with the observed state, leaves the provider state as the fetch left it, and
  issues the fetch only: no mutating call.
\<close>

theorem C4_blocked:
  assumes "buildManagedCluster lib spec = Return (Inr managedCluster)"
    and "client_Get c (ResourceGroupName spec) (Name spec) st = ((existingMC, None), st1)"
    and "mc_Properties existingMC = Some props"
    and "ProvisioningState props = Some ps"
    and "ps \<noteq> Succeeded" and "ps \<noteq> Failed" and "ps \<noteq> Canceled"
  shows "Reconcile lib c (SpecPtr (Some spec)) st =
           (Return (Some (ErrorString (blockedMessage @ ps))), st1,
            [GetCall (ResourceGroupName spec) (Name spec)])
         \<and> filter isMutating (snd (snd (Reconcile lib c (SpecPtr (Some spec)) st))) = []"
  using assms
  by (simp add: Reconcile_built ResourceNotFound_def reconcileExisting_def errors_New_def)

theorem C4_blocked_witness:
  "Reconcile goNet (stubClient (existingCluster ''Creating'' ''1.21.2'', None) None None)
     (SpecPtr (Some exampleSpec)) 0 =
     (Return (Some (ErrorString (blockedMessage @ ''Creating''))), 0,
      [GetCall (ResourceGroupName exampleSpec) (Name exampleSpec)])
   \<and> filter isMutating (snd (snd (Reconcile goNet
        (stubClient (existingCluster ''Creating'' ''1.21.2'', None) None None)
        (SpecPtr (Some exampleSpec)) 0))) = []"
proof -
  have s: "ProvisioningState
      (zeroProperties\<lparr> ProvisioningState := Some ''Creating'', KubernetesVersion := Some ''1.21.2'' \<rparr>)
      = Some ''Creating''"
    by simp
  have n: "''Creating'' \<noteq> Succeeded" "''Creating'' \<noteq> Failed" "''Creating'' \<noteq> Canceled"
    by (simp_all add: Succeeded_def Failed_def Canceled_def)
  show ?thesis
    by (rule C4_blocked [OF example_build stub_get existing_properties s n])
qed

text \<open>
  Claim C10. After a fetch that succeeds, \<^verbatim>\<open>Reconcile\<close> dereferences the properties block
  and the provisioning state of the fetched resource without a guard: the run panics
  exactly when the fetched resource has no properties block or no provisioning state, and
  it panics right after the fetch, before any other call.
\<close>

theorem C10_nil_dereference:
  assumes "buildManagedCluster lib spec = Return (Inr managedCluster)"
    and "client_Get c (ResourceGroupName spec) (Name spec) st = ((existingMC, None), st1)"
  shows "isPanic (fst (Reconcile lib c (SpecPtr (Some spec)) st)) =
           (\<not> hasProvisioningState existingMC)
       \<and> (\<not> hasProvisioningState existingMC \<longrightarrow>
            Reconcile lib c (SpecPtr (Some spec)) st =
              (Panic nilDereference, st1, [GetCall (ResourceGroupName spec) (Name spec)]))"
proof -
  obtain props where p: "mc_Properties managedCluster = Some props"
    using build_properties [OF assms(1)] by blast
  obtain r st2 where
    cu: "client_CreateOrUpdate c (ResourceGroupName spec) (Name spec) managedCluster st1 = (r, st2)"
    by (metis prod.exhaust)
  show ?thesis
    using assms p
    by (auto simp: Reconcile_built ResourceNotFound_def reconcileExisting_def isPanic_def
          hasProvisioningState_def Let_def callCreateOrUpdate_result [OF cu]
        split: option.splits)
qed

theorem C10_nil_dereference_witness:
  "isPanic (fst (Reconcile goNet (stubClient (zeroManagedCluster, None) None None)
      (SpecPtr (Some exampleSpec)) 0))
   \<and> Reconcile goNet (stubClient (zeroManagedCluster, None) None None)
       (SpecPtr (Some exampleSpec)) 0 =
     (Panic nilDereference, 0, [GetCall (ResourceGroupName exampleSpec) (Name exampleSpec)])
   \<and> Reconcile goNet (stubClient (zeroManagedCluster\<lparr> mc_Properties := Some zeroProperties \<rparr>, None)
        None None) (SpecPtr (Some exampleSpec)) 0 =
     (Panic nilDereference, 0, [GetCall (ResourceGroupName exampleSpec) (Name exampleSpec)])
   \<and> \<not> isPanic (fst (Reconcile goNet
        (stubClient (existingCluster ''Succeeded'' ''1.21.2'', None) None None)
        (SpecPtr (Some exampleSpec)) 0))"
proof -
  have n1: "\<not> hasProvisioningState zeroManagedCluster"
    by (simp add: hasProvisioningState_def zeroManagedCluster_def)
  have n2: "\<not> hasProvisioningState (zeroManagedCluster\<lparr> mc_Properties := Some zeroProperties \<rparr>)"
    by (simp add: hasProvisioningState_def zeroProperties_def)
  have y: "hasProvisioningState (existingCluster ''Succeeded'' ''1.21.2'')"
    by (simp add: hasProvisioningState_def existing_properties)
  note t = C10_nil_dereference [OF example_build stub_get]
  from t [of "zeroManagedCluster" None None 0]
       t [of "zeroManagedCluster\<lparr> mc_Properties := Some zeroProperties \<rparr>" None None 0]
       t [of "existingCluster ''Succeeded'' ''1.21.2''" None None 0]
  show ?thesis using n1 n2 y by (simp add: isPanic_def)
qed

subsection \<open>Create, update and no-op\<close>

text \<open>
  Claim C5. When the fetch fails with "not found", \<^verbatim>\<open>Reconcile\<close> issues the fetch and then
  exactly one \<^verbatim>\<open>CreateOrUpdate\<close> carrying the whole built resource; it returns nil when that
  call succeeds, and the call's error wrapped otherwise. When the fetch fails with any
  other error, that error is returned wrapped with a message and only the fetch is issued.
\<close>

theorem C5_create_or_fail:
  assumes "buildManagedCluster lib spec = Return (Inr managedCluster)"
    and "client_Get c (ResourceGroupName spec) (Name spec) st = ((existingMC, Some e), st1)"
    and "client_CreateOrUpdate c (ResourceGroupName spec) (Name spec) managedCluster st1 = (r, st2)"
  shows "(ResourceNotFound (Some e) \<longrightarrow>
            Reconcile lib c (SpecPtr (Some spec)) st =
              (Return (map_option (fmt_Errorf ''failed to create managed cluster, '') r), st2,
               [GetCall (ResourceGroupName spec) (Name spec),
                CreateOrUpdateCall (ResourceGroupName spec) (Name spec) managedCluster]))
       \<and> (\<not> ResourceNotFound (Some e) \<longrightarrow>
            Reconcile lib c (SpecPtr (Some spec)) st =
              (Return (Some (WithMessage e ''failed to get existing managed cluster'')), st1,
               [GetCall (ResourceGroupName spec) (Name spec)]))"
  using assms
  by (simp add: Reconcile_built callCreateOrUpdate_result errors_Wrap_def)

theorem C5_create_or_fail_witness:
  "Reconcile goNet (stubClient (zeroManagedCluster, Some (NotFound ''404'')) None None)
     (SpecPtr (Some exampleSpec)) 0 =
     (Return None, Suc 0,
      [GetCall (ResourceGroupName exampleSpec) (Name exampleSpec),
       CreateOrUpdateCall (ResourceGroupName exampleSpec) (Name exampleSpec) exampleDesired])
   \<and> Reconcile goNet (stubClient (zeroManagedCluster, Some (ProviderFailure ''500'')) None None)
     (SpecPtr (Some exampleSpec)) 0 =
     (Return (Some (WithMessage (ProviderFailure ''500'') ''failed to get existing managed cluster'')),
      0, [GetCall (ResourceGroupName exampleSpec) (Name exampleSpec)])"
proof -
  have nf: "ResourceNotFound (Some (NotFound ''404''))"
    by (simp add: ResourceNotFound_def)
  have pf: "\<not> ResourceNotFound (Some (ProviderFailure ''500''))"
    by (simp add: ResourceNotFound_def)
  note t = C5_create_or_fail [OF example_build stub_get stub_createOrUpdate]
  have a: "Reconcile goNet (stubClient (zeroManagedCluster, Some (NotFound ''404'')) None None)
     (SpecPtr (Some exampleSpec)) 0 =
     (Return (map_option (fmt_Errorf ''failed to create managed cluster, '') None), Suc 0,
      [GetCall (ResourceGroupName exampleSpec) (Name exampleSpec),
       CreateOrUpdateCall (ResourceGroupName exampleSpec) (Name exampleSpec) exampleDesired])"
    by (rule t [THEN conjunct1, rule_format, OF nf])
  have b: "Reconcile goNet (stubClient (zeroManagedCluster, Some (ProviderFailure ''500'')) None None)
     (SpecPtr (Some exampleSpec)) 0 =
     (Return (Some (WithMessage (ProviderFailure ''500'') ''failed to get existing managed cluster'')),
      0, [GetCall (ResourceGroupName exampleSpec) (Name exampleSpec)])"
    by (rule t [THEN conjunct2, rule_format, OF pf])
  from a b show ?thesis by simp
qed















subsection \<open>Mutating calls\<close>

text \<open>
  Claim C7. Whatever the argument, the library, the client and the provider state, one run
  of \<^verbatim>\<open>Reconcile\<close> issues at most one mutating call, on every path, the error and
  panic paths included.
\<close>

theorem C7_at_most_one:
  "length (filter isMutating (snd (snd (Reconcile lib c arg st)))) \<le> 1"
proof (cases arg)
  case OtherType
  then show ?thesis by (simp add: Reconcile_def)
next
  case (SpecPtr p)
  show ?thesis
  proof (cases p)
    case None
    with SpecPtr show ?thesis by (simp add: Reconcile_def)
  next
    case (Some spec)
    show ?thesis
    proof (cases "buildManagedCluster lib spec")
      case (Panic m)
      with SpecPtr Some show ?thesis by (simp add: Reconcile_def)
    next
      case (Return r)
      show ?thesis
      proof (cases r)
        case (Inl e)
        with SpecPtr Some Return show ?thesis by (simp add: Reconcile_def)
      next
        case (Inr mc)
        obtain existingMC err st1 where
          g: "client_Get c (ResourceGroupName spec) (Name spec) st = ((existingMC, err), st1)"
          by (metis prod.exhaust)
        have b: "buildManagedCluster lib spec = Return (Inr mc)"
          using Return Inr by simp
        show ?thesis
          using reconcileExisting_calls [of c spec mc existingMC st1
                  "[GetCall (ResourceGroupName spec) (Name spec)]"]
          by (auto simp: SpecPtr Some Reconcile_built [OF b g] callCreateOrUpdate_calls)
      qed
    qed
  qed
qed

theorem C7_at_most_one_witness:
  "length (filter isMutating (snd (snd (Reconcile goNet
     (stubClient (existingCluster ''Succeeded'' ''1.20.7'', None) None None)
     (SpecPtr (Some exampleSpec)) 0)))) \<le> 1"
  by (rule C7_at_most_one)

subsection \<open>Delete\<close>

text \<open>
  Claim C8. For a specification of the right type, \<^verbatim>\<open>Delete\<close> issues one provider
  \<^verbatim>\<open>Delete\<close> and returns nil when the provider reports "not found" or succeeds; any other
  provider error is returned wrapped with a message naming the cluster and its group.
\<close>

theorem C8_delete:
  assumes "client_Delete c (ResourceGroupName spec) (Name spec) st = (err, st1)"
  shows "(ResourceNotFound err \<longrightarrow>
            Delete c (SpecPtr (Some spec)) st =
              (Return None, st1, [DeleteCall (ResourceGroupName spec) (Name spec)]))
       \<and> (err = None \<longrightarrow>
            Delete c (SpecPtr (Some spec)) st =
              (Return None, st1, [DeleteCall (ResourceGroupName spec) (Name spec)]))
       \<and> (\<forall>e. err = Some e \<and> \<not> ResourceNotFound err \<longrightarrow>
            Delete c (SpecPtr (Some spec)) st =
              (Return (Some (WithMessage e (deleteMessage spec))), st1,
               [DeleteCall (ResourceGroupName spec) (Name spec)]))"
  using assms
  by (auto simp: Delete_def errors_Wrap_def Let_def)

theorem C8_delete_witness:
  "Delete (stubClient (zeroManagedCluster, None) None (Some (NotFound ''404'')))
     (SpecPtr (Some exampleSpec)) 0 =
     (Return None, Suc 0, [DeleteCall (ResourceGroupName exampleSpec) (Name exampleSpec)])
   \<and> Delete (stubClient (zeroManagedCluster, None) None None) (SpecPtr (Some exampleSpec)) 0 =
     (Return None, Suc 0, [DeleteCall (ResourceGroupName exampleSpec) (Name exampleSpec)])
   \<and> Delete (stubClient (zeroManagedCluster, None) None (Some (ProviderFailure ''500'')))
     (SpecPtr (Some exampleSpec)) 0 =
     (Return (Some (WithMessage (ProviderFailure ''500'') (deleteMessage exampleSpec))), Suc 0,
      [DeleteCall (ResourceGroupName exampleSpec) (Name exampleSpec)])"
proof -
  have nf: "ResourceNotFound (Some (NotFound ''404''))"
    by (simp add: ResourceNotFound_def)
  have pf: "Some (ProviderFailure ''500'') = Some (ProviderFailure ''500'')
      \<and> \<not> ResourceNotFound (Some (ProviderFailure ''500''))"
    by (simp add: ResourceNotFound_def)
  note t = C8_delete [OF stub_delete]
  have a: "Delete (stubClient (zeroManagedCluster, None) None (Some (NotFound ''404'')))
     (SpecPtr (Some exampleSpec)) 0 =
     (Return None, Suc 0, [DeleteCall (ResourceGroupName exampleSpec) (Name exampleSpec)])"
    by (rule t [THEN conjunct1, rule_format, OF nf])
  have b: "Delete (stubClient (zeroManagedCluster, None) None None) (SpecPtr (Some exampleSpec)) 0 =
     (Return None, Suc 0, [DeleteCall (ResourceGroupName exampleSpec) (Name exampleSpec)])"
    by (rule t [THEN conjunct2, THEN conjunct1, rule_format, OF refl])
  have c: "Delete (stubClient (zeroManagedCluster, None) None (Some (ProviderFailure ''500'')))
     (SpecPtr (Some exampleSpec)) 0 =
     (Return (Some (WithMessage (ProviderFailure ''500'') (deleteMessage exampleSpec))), Suc 0,
      [DeleteCall (ResourceGroupName exampleSpec) (Name exampleSpec)])"
    by (rule t [THEN conjunct2, THEN conjunct2, rule_format, OF pf])
  from a b c show ?thesis by simp
qed

end
